theory Spec2Isabelle
  imports Complex_Main "HOL-Library.Word" "HOL-Library.Multiset"
begin

section \<open>The order-book filler plugin: data model\<close>

text \<open>
  The development embeds \<^verbatim>\<open>ingest/usecase/plugins/orderbookfiller/ordebook_filler_ingest_plugin.go\<close>.
  Go values of type \<^verbatim>\<open>error\<close> are messages; a nil error is \<open>None\<close>.
\<close>

datatype error = Err string

text \<open>\<^verbatim>\<open>domain.CanonicalOrderBooksResult\<close>, with the field names of the source.\<close>

record CanonicalOrderBooksResult =
  Base :: string
  Quote :: string
  PoolID :: nat
  ContractAddress :: string

text \<open>
  Modelled from the spec: the package \<^verbatim>\<open>context/msg\<close> is missing from the sources. A Message
  Context is one candidate arb: its pool, its max fee cap (the profitability score, a \<^verbatim>\<open>Dec\<close>:
  a rational number), its low-value classification, its gas estimate and the chain message.
  The plugin reads \<^verbatim>\<open>GetMaxFeeCap()\<close> and \<^verbatim>\<open>IsLowValue()\<close> only; the amounts and denoms of
  the trade are arguments of the calls that build it.
\<close>

record msgctx =
  msgPoolID :: nat
  maxFeeCap :: rat
  isLowValue :: bool
  adjustedGasUsed :: "64 word"
  sdkMsg :: string

text \<open>
  Modelled from the spec: the package \<^verbatim>\<open>context/tx\<close> (\<^verbatim>\<open>txctx.New\<close>, \<^verbatim>\<open>AddMsg\<close>, \<^verbatim>\<open>GetMsgs\<close>,
  \<^verbatim>\<open>GetSDKMsgs\<close>, \<^verbatim>\<open>GetAdjustedGasUsedTotal\<close>, \<^verbatim>\<open>UpdateAdjustedGasTotal\<close>) is missing from the
  sources. The spec gives a Transaction Context an ordered sequence of accepted messages (the
  pending batch), a running total of the adjusted gas estimate, and a partition marker that
  separates the used or logged pool IDs, "messages filled immediately and not part of the
  batch", from the pending batch.
\<close>

record txctx =
  msgs :: "msgctx list"
  usedPools :: "nat list"
  adjustedGasUsedTotal :: "64 word"

definition txctx_New :: txctx where
  "txctx_New = \<lparr>msgs = [], usedPools = [], adjustedGasUsedTotal = 0\<rparr>"

text \<open>
  Modelled from the spec: \<^verbatim>\<open>AddMsg\<close> is missing from the sources. By the spec a message of low
  value is batched; a message whose immediate execution failed "is instead retained and added
  to the pending batch", which is the call with the second argument set; and the used or
  logged pools are those of the messages filled immediately, the messages that are not of low
  value and come with the second argument clear. A message that joins the pending batch adds
  its gas estimate to the running total.
\<close>

definition AddMsg :: "txctx \<Rightarrow> msgctx \<Rightarrow> bool \<Rightarrow> txctx" where
  "AddMsg t m bundled =
     (if bundled \<or> isLowValue m
      then t\<lparr>msgs := msgs t @ [m],
             adjustedGasUsedTotal := adjustedGasUsedTotal t + adjustedGasUsed m\<rparr>
      else t\<lparr>usedPools := usedPools t @ [msgPoolID m]\<rparr>)"

definition GetMsgs :: "txctx \<Rightarrow> msgctx list" where
  "GetMsgs t = msgs t"

definition GetSDKMsgs :: "txctx \<Rightarrow> string list" where
  "GetSDKMsgs t = map sdkMsg (msgs t)"

definition GetAdjustedGasUsedTotal :: "txctx \<Rightarrow> 64 word" where
  "GetAdjustedGasUsedTotal t = adjustedGasUsedTotal t"

definition UpdateAdjustedGasTotal :: "txctx \<Rightarrow> 64 word \<Rightarrow> txctx" where
  "UpdateAdjustedGasTotal t g = t\<lparr>adjustedGasUsedTotal := g\<rparr>"

subsection \<open>Effects\<close>

text \<open>
  Every call of a collaborator and every log line is recorded, in order, in a trace. An event
  carries the arguments of the call.
\<close>

datatype level = Debug | Info | Warn | Error

datatype event =
    GetAllCanonicalOrderbookPoolIDs
  | FetchTicksForOrderbook nat
  | AllBalances
  | GetPrices "string list"
  | BlockCtxNew
  | GetFillableOrders nat
  | ValidateArb int string string nat
  | SimulateMsgs "string list"
  | ExecuteTx nat txctx
  | Println int int
  | Log level string

text \<open>
  The state the plugin works on: its \<^verbatim>\<open>atomicBool\<close>, the trace, and \<open>txCtx\<close>, the Transaction
  Context embedded in the Block Context of the block being processed (\<^verbatim>\<open>ctx.GetTxCtx()\<close>).
\<close>

record world =
  atomicBool :: bool
  trace :: "event list"
  txCtx :: txctx

definition emit :: "event \<Rightarrow> world \<Rightarrow> world" where
  "emit e w = w\<lparr>trace := trace w @ [e]\<rparr>"

definition logger :: "level \<Rightarrow> string \<Rightarrow> world \<Rightarrow> world" where
  "logger l s w = emit (Log l s) w"

text \<open>
  Modelled from the spec: the package \<^verbatim>\<open>context/block\<close> is missing from the sources. The Block
  Context is the snapshot of one block: the plugin reads its balance table
  (\<^verbatim>\<open>GetUserBalances().AmountOf\<close>) and its block height. \<^verbatim>\<open>blockctx.New\<close> builds it from the
  fetched balances and the height, with an empty embedded Transaction Context.
\<close>

record blockctx =
  userBalances :: "string \<Rightarrow> int"
  blockHeight :: nat

definition blockctx_New :: "(string \<Rightarrow> int) \<Rightarrow> nat \<Rightarrow> blockctx \<times> txctx" where
  "blockctx_New balances height = (\<lparr>userBalances = balances, blockHeight = height\<rparr>, txctx_New)"

text \<open>
  The collaborators, and the functions of the package that are not in the sources
  (\<^verbatim>\<open>fetchTicksForOrderbook\<close>, \<^verbatim>\<open>validateUserBalances\<close>, \<^verbatim>\<open>getFillableOrders\<close>, \<^verbatim>\<open>validateArb\<close>,
  \<^verbatim>\<open>simulateMsgs\<close>, \<^verbatim>\<open>executeTx\<close>, \<^verbatim>\<open>RankAndFilterMsgs\<close>, \<^verbatim>\<open>blockctx.New\<close>), are parameters.
  A collaborator that talks to the outside world receives the trace so far, so that its answer
  may differ from one call to the next. \<open>rangeOrder\<close> is the order in which Go's
  \<^verbatim>\<open>range\<close> visits the keys of a map, and \<open>BaseDenom\<close> is \<^verbatim>\<open>orderbookplugindomain.BaseDenom\<close>.
\<close>

record env =
  getAllCanonicalOrderbookPoolIDs :: "event list \<Rightarrow> error + CanonicalOrderBooksResult list"
  fetchTicksForOrderbook :: "event list \<Rightarrow> CanonicalOrderBooksResult \<Rightarrow> error option"
  allBalances :: "event list \<Rightarrow> error + (string \<Rightarrow> int)"
  getPrices :: "event list \<Rightarrow> string list \<Rightarrow> error option"
  blockctxNew :: "event list \<Rightarrow> error option"
  validateUserBalances :: "blockctx \<Rightarrow> string \<Rightarrow> string \<Rightarrow> error option"
  getFillableOrders :: "event list \<Rightarrow> CanonicalOrderBooksResult \<Rightarrow> error + int \<times> int"
  validateArb :: "event list \<Rightarrow> int \<Rightarrow> string \<Rightarrow> string \<Rightarrow> nat \<Rightarrow> error + msgctx"
  simulateMsgs :: "event list \<Rightarrow> string list \<Rightarrow> error + 64 word"
  executeTx :: "event list \<Rightarrow> nat \<Rightarrow> txctx \<Rightarrow> error option"
  RankAndFilterMsgs :: "msgctx list \<Rightarrow> msgctx list"
  rangeOrder :: "string list \<Rightarrow> string list"
  BaseDenom :: string

section \<open>The arb search\<close>

text \<open>
  \<^verbatim>\<open>osmomath.Int\<close> is an integer and \<^verbatim>\<open>osmomath.Dec\<close> a decimal of 18 places. The values the
  search computes are integers, halves of integers and hundredths of integers, all exact at 18
  places, so the operations are those of the rationals (\<^verbatim>\<open>MulMut\<close> is the product, and
  \<^verbatim>\<open>QuoRoundupMut\<close> the quotient, which needs no rounding here). \<^verbatim>\<open>TruncateInt\<close> rounds
  towards zero. The bound of 256 bits on an \<^verbatim>\<open>Int\<close>, beyond which the library panics, is not
  modelled. \<^verbatim>\<open>osmomath.Int{}\<close>, the zero value of the type, is the amount \<open>0\<close>.
\<close>

definition ToLegacyDec :: "int \<Rightarrow> rat" where
  "ToLegacyDec i = of_int i"

definition TruncateInt :: "rat \<Rightarrow> int" where
  "TruncateInt d = (if 0 \<le> d then \<lfloor>d\<rfloor> else \<lceil>d\<rceil>)"

definition Ceil :: "rat \<Rightarrow> rat" where
  "Ceil d = of_int \<lceil>d\<rceil>"

definition QuoRoundup :: "rat \<Rightarrow> rat \<Rightarrow> rat" where
  "QuoRoundup d d2 = d / d2"

definition multiplier :: rat where
  "multiplier = 105 / 100"

definition two :: rat where
  "two = 2"

definition maxRecursionAttemptsArbSearch :: "64 word" where
  "maxRecursionAttemptsArbSearch = 15"

text \<open>
  \<^verbatim>\<open>tryValidate\<close> returns Go's triple, the error included, after the state. The counter
  \<^verbatim>\<open>attemptsRemaining\<close> is a Go \<^verbatim>\<open>int\<close>, compared with zero and decremented: a 64-bit word.
\<close>

function tryValidate ::
  "env \<Rightarrow> world \<Rightarrow> int \<Rightarrow> int \<Rightarrow> string \<Rightarrow> string \<Rightarrow> nat \<Rightarrow> msgctx \<Rightarrow> 64 word
     \<Rightarrow> world \<times> msgctx \<times> int \<times> error option" where
  "tryValidate e w amountInLow amountInHigh denomIn denomOut orderBookID lowMsgCtx attemptsRemaining =
     (if attemptsRemaining = 0 then (w, lowMsgCtx, amountInLow, None)
      else
        let mid = TruncateInt (Ceil (QuoRoundup (ToLegacyDec amountInLow + ToLegacyDec amountInHigh) two));
            r = validateArb e (trace w) mid denomIn denomOut orderBookID;
            w1 = emit (ValidateArb mid denomIn denomOut orderBookID) w
        in if (case r of Inl err \<Rightarrow> False | Inr midMsgCtx \<Rightarrow> maxFeeCap lowMsgCtx \<le> maxFeeCap midMsgCtx)
           then tryValidate e w1 mid amountInHigh denomIn denomOut orderBookID (projr r) (attemptsRemaining - 1)
           else
             (case tryValidate e w1 amountInLow mid denomIn denomOut orderBookID lowMsgCtx (attemptsRemaining - 1) of
                (w2, topMsgCtx, topAmount, err) \<Rightarrow>
                  if err = None \<and> maxFeeCap lowMsgCtx \<le> maxFeeCap topMsgCtx
                  then (w2, topMsgCtx, topAmount, None)
                  else (w2, lowMsgCtx, amountInLow, None)))"
  by pat_completeness auto
termination
  by (relation "measure (\<lambda>(e, w, lo, hi, di, do, ob, m, n). unat n)")
     (auto simp: unat_minus_one unat_gt_0)

declare tryValidate.simps [simp del]

text \<open>
  \<^verbatim>\<open>fillImmediate\<close>: a new transaction context holding the one message, its gas total scaled by
  \<^verbatim>\<open>110 / 100\<close> in \<^verbatim>\<open>uint64\<close> arithmetic, executed without simulation.
\<close>

definition fillImmediate :: "env \<Rightarrow> blockctx \<Rightarrow> world \<Rightarrow> msgctx \<Rightarrow> world \<times> error option" where
  "fillImmediate e ctx w msgCtx =
     (let immediateTxCtx = AddMsg txctx_New msgCtx True;
          newAdjustedGasUsedTotal = GetAdjustedGasUsedTotal immediateTxCtx * 110 div 100;
          immediateTxCtx = UpdateAdjustedGasTotal immediateTxCtx newAdjustedGasUsedTotal;
          w1 = emit (ExecuteTx (blockHeight ctx) immediateTxCtx) w
      in case executeTx e (trace w) (blockHeight ctx) immediateTxCtx of
           Some (Err s) \<Rightarrow> (w1, Some (Err (''failed to execute immediate fill transaction: '' @ s)))
         | None \<Rightarrow> (logger Info ''Executed immediate fill transaction'' w1, None))"

definition computePerfectArbAmountIfExists ::
  "env \<Rightarrow> blockctx \<Rightarrow> world \<Rightarrow> int \<Rightarrow> string \<Rightarrow> string \<Rightarrow> nat \<Rightarrow> world \<times> int \<times> error option" where
  "computePerfectArbAmountIfExists e ctx w proposedAmountIn denomIn denomOut orderBookID =
     (let w0 = emit (ValidateArb proposedAmountIn denomIn denomOut orderBookID) w
      in case validateArb e (trace w) proposedAmountIn denomIn denomOut orderBookID of
           Inl err \<Rightarrow> (w0, 0, Some err)
         | Inr msgCtx0 \<Rightarrow>
             let amountInHigh = TruncateInt (ToLegacyDec proposedAmountIn * multiplier)
             in case tryValidate e w0 proposedAmountIn amountInHigh denomIn denomOut orderBookID
                       msgCtx0 maxRecursionAttemptsArbSearch of
                  (w1, msgCtx, result, err) \<Rightarrow>
                    if err \<noteq> None then (w1, proposedAmountIn, None)
                    else
                      let (w2, ierr) =
                            (if \<not> isLowValue msgCtx
                             then (case fillImmediate e ctx w1 msgCtx of
                                     (w', None) \<Rightarrow> (w', None)
                                   | (w', Some ie) \<Rightarrow>
                                       (logger Error ''failed to fill high value route immediately'' w', Some ie))
                             else (w1, None))
                      in (w2\<lparr>txCtx := AddMsg (txCtx w2) msgCtx (ierr \<noteq> None)\<rparr>, result, None))"

section \<open>Processing one order book\<close>

text \<open>
  \<^verbatim>\<open>processOrderBook\<close> runs the ask search and the bid search in two goroutines and waits for
  both. The model runs the ask search first and the bid search second, one of the schedules the
  program allows. \<open>fillAskAndBid\<close> is that part of the function, from the wait group on.
\<close>

definition fillAskAndBid ::
  "env \<Rightarrow> blockctx \<Rightarrow> world \<Rightarrow> CanonicalOrderBooksResult \<Rightarrow> int \<Rightarrow> int \<Rightarrow> world" where
  "fillAskAndBid e ctx w canonicalOrderbookResult fillableAskAmountQuoteDenom fillableBidAmountBaseDenom =
     (let wa = (case computePerfectArbAmountIfExists e ctx w fillableAskAmountQuoteDenom
                       (Quote canonicalOrderbookResult) (Base canonicalOrderbookResult)
                       (PoolID canonicalOrderbookResult) of
                  (w', _, Some err) \<Rightarrow> logger Error ''failed to fill asks'' w'
                | (w', _, None) \<Rightarrow> logger Info ''passed orderbook asks'' w')
      in case computePerfectArbAmountIfExists e ctx wa fillableBidAmountBaseDenom
                (Base canonicalOrderbookResult) (Quote canonicalOrderbookResult)
                (PoolID canonicalOrderbookResult) of
           (w', _, Some err) \<Rightarrow> logger Error ''failed to fill bids'' w'
         | (w', _, None) \<Rightarrow> logger Info ''passed orderbook bids'' w')"

definition processOrderBook ::
  "env \<Rightarrow> blockctx \<Rightarrow> world \<Rightarrow> CanonicalOrderBooksResult \<Rightarrow> world \<times> error option" where
  "processOrderBook e ctx w canonicalOrderbookResult =
     (let baseDenom = Base canonicalOrderbookResult;
          quoteDenom = Quote canonicalOrderbookResult;
          w0 = emit (GetFillableOrders (PoolID canonicalOrderbookResult)) w
      in case getFillableOrders e (trace w) canonicalOrderbookResult of
           Inl err \<Rightarrow> (w0, Some err)
         | Inr (fillableAskAmountQuoteDenom, fillableBidAmountBaseDenom) \<Rightarrow>
             let userBalanceQuoteDenom = userBalances ctx quoteDenom;
                 (fillableAskAmountQuoteDenom, w1) =
                   (if userBalanceQuoteDenom < fillableAskAmountQuoteDenom
                    then (userBalanceQuoteDenom,
                          logger Warn ''user balance less than fillable ask amount''
                            (emit (Println fillableAskAmountQuoteDenom userBalanceQuoteDenom) w0))
                    else (fillableAskAmountQuoteDenom, w0));
                 userBalanceBaseDenom = userBalances ctx baseDenom;
                 (fillableBidAmountBaseDenom, w2) =
                   (if userBalanceBaseDenom < fillableBidAmountBaseDenom
                    then (userBalanceBaseDenom,
                          logger Warn ''user balance less than fillable bid amount''
                            (emit (Println fillableBidAmountBaseDenom userBalanceBaseDenom) w1))
                    else (fillableBidAmountBaseDenom, w1))
             in (fillAskAndBid e ctx w2 canonicalOrderbookResult
                   fillableAskAmountQuoteDenom fillableBidAmountBaseDenom, None))"

section \<open>Unique denoms\<close>

text \<open>
  The Go map \<^verbatim>\<open>map[string]struct{}\<close> is the list of its keys, without duplicates; storing a
  key that is present changes nothing. The final \<^verbatim>\<open>range\<close> over the map visits the keys in an
  order Go leaves open: \<open>rangeOrder\<close>.
\<close>

definition mapStore :: "string \<Rightarrow> string list \<Rightarrow> string list" where
  "mapStore k m = (if k \<in> set m then m else m @ [k])"

definition getUniqueOrderbookDenoms :: "env \<Rightarrow> CanonicalOrderBooksResult list \<Rightarrow> string list" where
  "getUniqueOrderbookDenoms e canonicalOrderbooks =
     (let uniqueDenoms = foldl (\<lambda>m canonicalOrderbook.
                                  mapStore (Quote canonicalOrderbook) (mapStore (Base canonicalOrderbook) m))
                               [] canonicalOrderbooks;
          uniqueDenoms = mapStore (BaseDenom e) uniqueDenoms
      in rangeOrder e uniqueDenoms)"

section \<open>The block orchestrator\<close>

text \<open>
  \<^verbatim>\<open>fetchTicksForModifiedOrderbooks\<close> starts one goroutine of an \<^verbatim>\<open>errgroup\<close> for every canonical
  order book whose pool is in \<^verbatim>\<open>blockUpdatedPools\<close>, and \<^verbatim>\<open>Wait\<close> returns the first error. The
  model runs the fetches in the order of the list.
\<close>

fun fetchTicksLoop ::
  "env \<Rightarrow> nat set \<Rightarrow> CanonicalOrderBooksResult list \<Rightarrow> world \<Rightarrow> error option \<Rightarrow> world \<times> error option" where
  "fetchTicksLoop e blockUpdatedPools [] w first = (w, first)"
| "fetchTicksLoop e blockUpdatedPools (orderbookResult # rest) w first =
     (if PoolID orderbookResult \<in> blockUpdatedPools
      then
        let w1 = emit (FetchTicksForOrderbook (PoolID orderbookResult)) w
        in case fetchTicksForOrderbook e (trace w) orderbookResult of
             Some err \<Rightarrow>
               fetchTicksLoop e blockUpdatedPools rest
                 (logger Error ''failed to fetch ticks for orderbook'' w1)
                 (case first of None \<Rightarrow> Some err | Some err0 \<Rightarrow> Some err0)
           | None \<Rightarrow> fetchTicksLoop e blockUpdatedPools rest w1 first
      else fetchTicksLoop e blockUpdatedPools rest w first)"

definition fetchTicksForModifiedOrderbooks ::
  "env \<Rightarrow> world \<Rightarrow> nat set \<Rightarrow> CanonicalOrderBooksResult list \<Rightarrow> world \<times> error option" where
  "fetchTicksForModifiedOrderbooks e w blockUpdatedPools canonicalOrderbooks =
     fetchTicksLoop e blockUpdatedPools canonicalOrderbooks w None"

definition tryFill :: "env \<Rightarrow> blockctx \<Rightarrow> world \<Rightarrow> world \<times> error option" where
  "tryFill e ctx w =
     (if length (GetSDKMsgs (txCtx w)) = 0 then (w, None)
      else
        let w1 = w\<lparr>txCtx := (txCtx w)\<lparr>msgs := RankAndFilterMsgs e (msgs (txCtx w))\<rparr>\<rparr>;
            sdkMsgs = GetSDKMsgs (txCtx w1);
            w2 = emit (SimulateMsgs sdkMsgs) w1
        in case simulateMsgs e (trace w1) sdkMsgs of
             Inl err \<Rightarrow> (w2, Some err)
           | Inr adjustedGasAmount \<Rightarrow>
               let w3 = w2\<lparr>txCtx := UpdateAdjustedGasTotal (txCtx w2) adjustedGasAmount\<rparr>;
                   w4 = emit (ExecuteTx (blockHeight ctx) (txCtx w3)) w3
               in case executeTx e (trace w3) (blockHeight ctx) (txCtx w3) of
                    Some err \<Rightarrow> (w4, Some err)
                  | None \<Rightarrow> (w4, None))"

text \<open>
  The fan-out: the pools whose balances validate are processed, each by its own goroutine, and
  each worker sends one result. The model runs the workers one after the other in the order of
  the list, and every worker answers before the timeout.
\<close>

fun processOrderbooksLoop ::
  "env \<Rightarrow> blockctx \<Rightarrow> CanonicalOrderBooksResult list \<Rightarrow> world
     \<Rightarrow> world \<times> (error option \<times> nat) list" where
  "processOrderbooksLoop e blockCtx [] w = (w, [])"
| "processOrderbooksLoop e blockCtx (canonicalOrderbook # rest) w =
     (case validateUserBalances e blockCtx (Base canonicalOrderbook) (Quote canonicalOrderbook) of
        Some err \<Rightarrow>
          processOrderbooksLoop e blockCtx rest
            (logger Info ''Skipping orderbook due to insufficient balance'' w)
      | None \<Rightarrow>
          (case processOrderBook e blockCtx w canonicalOrderbook of
             (w1, err) \<Rightarrow>
               (case processOrderbooksLoop e blockCtx rest w1 of
                  (w2, results) \<Rightarrow> (w2, (err, PoolID canonicalOrderbook) # results))))"

fun collectResults :: "(error option \<times> nat) list \<Rightarrow> world \<Rightarrow> world" where
  "collectResults [] w = w"
| "collectResults ((err, poolID) # rest) w =
     collectResults rest
       (if err \<noteq> None then logger Error ''failed to process orderbook'' w else w)"

text \<open>The fallback loop of \<^verbatim>\<open>ProcessEndBlock\<close>, over \<^verbatim>\<open>originalMsgs\<close>.\<close>

fun fillIndividually :: "env \<Rightarrow> blockctx \<Rightarrow> msgctx list \<Rightarrow> world \<Rightarrow> world" where
  "fillIndividually e blockCtx [] w = w"
| "fillIndividually e blockCtx (msg # rest) w =
     (let curTxCtx = txctx_New;
          curTxCtx = AddMsg curTxCtx msg False
      in case tryFill e blockCtx w of
           (w1, Some err) \<Rightarrow>
             fillIndividually e blockCtx rest (logger Error ''failed to fill individual msg tx'' w1)
         | (w1, None) \<Rightarrow> fillIndividually e blockCtx rest w1)"

text \<open>The last part of \<^verbatim>\<open>ProcessEndBlock\<close>: the batch fill and its fallback.\<close>

definition fillBatch :: "env \<Rightarrow> blockctx \<Rightarrow> world \<Rightarrow> world \<times> error option" where
  "fillBatch e blockCtx w =
     (let originalMsgs = GetMsgs (txCtx w)
      in case tryFill e blockCtx w of
           (w1, Some err) \<Rightarrow>
             if length originalMsgs = 1 then (logger Error ''failed to fill'' w1, Some err)
             else
               let w2 = logger Error
                          ''failed to fill batch of arbs as one tx - falling back to executing each message as separate tx''
                          w1;
                   w3 = fillIndividually e blockCtx originalMsgs w2
               in (logger Info ''processed end block in orderbook filler ingest plugin'' w3, None)
         | (w1, None) \<Rightarrow>
             (logger Info ''processed end block in orderbook filler ingest plugin'' w1, None))"

text \<open>
  The part of \<^verbatim>\<open>ProcessEndBlock\<close> that runs while the flag is held, from the unique denoms to
  the batch fill. The prices are read by \<^verbatim>\<open>blockctx.New\<close> and \<^verbatim>\<open>validateUserBalances\<close> only,
  which are parameters, so \<open>getPrices\<close> answers with its error alone.
\<close>

definition processBlockLocked ::
  "env \<Rightarrow> world \<Rightarrow> nat \<Rightarrow> CanonicalOrderBooksResult list \<Rightarrow> world \<times> error option" where
  "processBlockLocked e w height canonicalOrderbooks =
     (let uniqueOrderBookDenoms = getUniqueOrderbookDenoms e canonicalOrderbooks;
          w1 = emit AllBalances w
      in case allBalances e (trace w) of
           Inl err \<Rightarrow> (w1, Some err)
         | Inr balances \<Rightarrow>
             let w2 = emit (GetPrices uniqueOrderBookDenoms) w1
             in case getPrices e (trace w1) uniqueOrderBookDenoms of
                  Some err \<Rightarrow> (w2, Some err)
                | None \<Rightarrow>
                    let w3 = emit BlockCtxNew w2
                    in case blockctxNew e (trace w2) of
                         Some err \<Rightarrow> (w3, Some err)
                       | None \<Rightarrow>
                           let (blockCtx, newTxCtx) = blockctx_New balances height;
                               w4 = w3\<lparr>txCtx := newTxCtx\<rparr>
                           in case processOrderbooksLoop e blockCtx canonicalOrderbooks w4 of
                                (w5, results) \<Rightarrow> fillBatch e blockCtx (collectResults results w5))"

text \<open>
  \<^verbatim>\<open>ProcessEndBlock\<close>. \<^verbatim>\<open>CompareAndSwap(false, true)\<close> fails when the flag is set and sets it
  otherwise; the deferred \<^verbatim>\<open>Store(false)\<close> runs on every return after it. The value that
  \<^verbatim>\<open>fetchTicksForModifiedOrderbooks\<close> returns is not read.
\<close>

definition ProcessEndBlock :: "env \<Rightarrow> world \<Rightarrow> nat \<Rightarrow> nat set \<Rightarrow> world \<times> error option" where
  "ProcessEndBlock e w height PoolIDs =
     (let w0 = emit GetAllCanonicalOrderbookPoolIDs w
      in case getAllCanonicalOrderbookPoolIDs e (trace w) of
           Inl err \<Rightarrow> (logger Error ''failed to get all canonical orderbook pool IDs'' w0, Some err)
         | Inr canonicalOrderbooks \<Rightarrow>
             let w1 = fst (fetchTicksForModifiedOrderbooks e w0 PoolIDs canonicalOrderbooks)
             in if atomicBool w1
                then (logger Info ''orderbook filler is already in progress'' w1, None)
                else
                  (case processBlockLocked e (w1\<lparr>atomicBool := True\<rparr>) height canonicalOrderbooks of
                     (w2, err) \<Rightarrow> (w2\<lparr>atomicBool := False\<rparr>, err)))"

section \<open>Predicates on results and traces\<close>

text \<open>The rounded-up midpoint of the search interval, as integer arithmetic.\<close>

definition midpoint :: "int \<Rightarrow> int \<Rightarrow> int" where
  "midpoint lo hi = (lo + hi + 1) div 2"

text \<open>The events that a call of \<^verbatim>\<open>validateArb\<close> leaves in the trace.\<close>

fun isValidateArb :: "event \<Rightarrow> bool" where
  "isValidateArb (ValidateArb a di do ob) = True"
| "isValidateArb _ = False"

text \<open>The simulations of a batch, and the executions of a transaction.\<close>

fun isSimulateMsgs :: "event \<Rightarrow> bool" where
  "isSimulateMsgs (SimulateMsgs ms) = True"
| "isSimulateMsgs _ = False"

fun isExecuteTx :: "event \<Rightarrow> bool" where
  "isExecuteTx (ExecuteTx h t) = True"
| "isExecuteTx _ = False"



text \<open>
  What a search over \<open>[lo, hi]\<close> that starts from the validated message \<open>m\<close> with \<open>k\<close> attempts
  returns: no error, \<open>k\<close> validations added to the trace and nothing else changed, a fee cap not
  below that of \<open>m\<close>, a message that is \<open>m\<close> or was validated at the returned amount, and an
  amount inside the interval.
\<close>

definition searchInv ::
  "env \<Rightarrow> world \<Rightarrow> int \<Rightarrow> int \<Rightarrow> string \<Rightarrow> string \<Rightarrow> nat \<Rightarrow> msgctx \<Rightarrow> nat
     \<Rightarrow> world \<times> msgctx \<times> int \<times> error option \<Rightarrow> bool" where
  "searchInv e w lo hi di do ob m k res =
     (case res of (w', c, a, err) \<Rightarrow>
        err = None \<and>
        (\<exists>evs. w' = w\<lparr>trace := trace w @ evs\<rparr> \<and> length evs = k \<and> list_all isValidateArb evs) \<and>
        maxFeeCap m \<le> maxFeeCap c \<and>
        (c = m \<and> a = lo \<or> (\<exists>tr. validateArb e tr a di do ob = Inr c)) \<and>
        (lo \<le> hi \<longrightarrow> lo \<le> a \<and> a \<le> hi))"

section \<open>A concrete block\<close>

text \<open>
  One canonical order book, pool 1, trading \<^verbatim>\<open>uosmo\<close> against \<^verbatim>\<open>uusdc\<close>. In \<open>exEnv\<close> the tick
  query fails, the wallet holds 1000 of every denom, 100 of the ask side is fillable, an arb is
  valid at the amount 100 only, the simulation of a batch fails and the execution of a
  transaction succeeds.
\<close>

definition exOrderbook :: CanonicalOrderBooksResult where
  "exOrderbook = \<lparr>Base = ''uosmo'', Quote = ''uusdc'', PoolID = 1, ContractAddress = ''osmo1book''\<rparr>"

definition exMsgHigh :: msgctx where
  "exMsgHigh = \<lparr>msgPoolID = 1, maxFeeCap = 5, isLowValue = False, adjustedGasUsed = 100000,
                 sdkMsg = ''swap-high''\<rparr>"

definition exMsgHigh2 :: msgctx where
  "exMsgHigh2 = \<lparr>msgPoolID = 2, maxFeeCap = 4, isLowValue = False, adjustedGasUsed = 100000,
                  sdkMsg = ''swap-high-2''\<rparr>"

definition exMsgLow :: msgctx where
  "exMsgLow = \<lparr>msgPoolID = 1, maxFeeCap = 1, isLowValue = True, adjustedGasUsed = 100000,
                sdkMsg = ''swap-low''\<rparr>"

definition exEnv :: env where
  "exEnv = \<lparr>
     getAllCanonicalOrderbookPoolIDs = (\<lambda>tr. Inr [exOrderbook]),
     fetchTicksForOrderbook = (\<lambda>tr ob. Some (Err ''tick query failed'')),
     allBalances = (\<lambda>tr. Inr (\<lambda>denom. 1000)),
     getPrices = (\<lambda>tr denoms. None),
     blockctxNew = (\<lambda>tr. None),
     validateUserBalances = (\<lambda>ctx b q. None),
     getFillableOrders = (\<lambda>tr ob. Inr (100, 0)),
     validateArb = (\<lambda>tr a di do ob. if a = 100 then Inr exMsgHigh else Inl (Err ''not profitable'')),
     simulateMsgs = (\<lambda>tr ms. Inl (Err ''simulation failed'')),
     executeTx = (\<lambda>tr h t. None),
     RankAndFilterMsgs = (\<lambda>ms. ms),
     rangeOrder = rev,
     BaseDenom = ''uosmo''\<rparr>"

text \<open>The same block, where the arb that validates is of low value.\<close>

definition exEnvLow :: env where
  "exEnvLow = exEnv\<lparr>validateArb :=
     (\<lambda>tr a di do ob. if a = 100 then Inr exMsgLow else Inl (Err ''not profitable''))\<rparr>"

text \<open>
  A block of two order books, pools 1 and 2, where no pool was updated, each ask side has a
  valid high-value arb at the amount 100, and every execution of a transaction fails.
\<close>

definition exOrderbook2 :: CanonicalOrderBooksResult where
  "exOrderbook2 = \<lparr>Base = ''uatom'', Quote = ''uusdc'', PoolID = 2, ContractAddress = ''osmo1book2''\<rparr>"

definition exEnvTwo :: env where
  "exEnvTwo = exEnv\<lparr>
     getAllCanonicalOrderbookPoolIDs := (\<lambda>tr. Inr [exOrderbook, exOrderbook2]),
     validateArb := (\<lambda>tr a di do ob.
        if a = 100 then Inr (if ob = 1 then exMsgHigh else exMsgHigh2) else Inl (Err ''not profitable'')),
     executeTx := (\<lambda>tr h t. Some (Err ''broadcast failed''))\<rparr>"

text \<open>
  A block of three order books: pool 1 has a valid high-value arb whose execution succeeds,
  pool 2 has no valid arb, pool 3 has a valid low-value arb, and the simulation of a batch
  succeeds.
\<close>

definition exOrderbook3 :: CanonicalOrderBooksResult where
  "exOrderbook3 = \<lparr>Base = ''uion'', Quote = ''uusdc'', PoolID = 3, ContractAddress = ''osmo1book3''\<rparr>"

definition exMsgLow3 :: msgctx where
  "exMsgLow3 = \<lparr>msgPoolID = 3, maxFeeCap = 1, isLowValue = True, adjustedGasUsed = 100000,
                 sdkMsg = ''swap-low-3''\<rparr>"

definition exEnvThree :: env where
  "exEnvThree = exEnv\<lparr>
     getAllCanonicalOrderbookPoolIDs := (\<lambda>tr. Inr [exOrderbook, exOrderbook2, exOrderbook3]),
     validateArb := (\<lambda>tr a di do ob.
        if a = 100 \<and> ob = 1 then Inr exMsgHigh
        else if a = 100 \<and> ob = 3 then Inr exMsgLow3
        else Inl (Err ''not profitable'')),
     simulateMsgs := (\<lambda>tr ms. Inr 90000)\<rparr>"

text \<open>The block whose registry fetch fails.\<close>

definition exEnvDown :: env where
  "exEnvDown = exEnv\<lparr>getAllCanonicalOrderbookPoolIDs := (\<lambda>tr. Inl (Err ''registry down''))\<rparr>"

definition exCtx :: blockctx where
  "exCtx = \<lparr>userBalances = (\<lambda>denom. 1000), blockHeight = 7\<rparr>"

definition idleWorld :: world where
  "idleWorld = \<lparr>atomicBool = False, trace = [], txCtx = txctx_New\<rparr>"

definition busyWorld :: world where
  "busyWorld = \<lparr>atomicBool = True, trace = [], txCtx = txctx_New\<rparr>"

text \<open>
  A block whose batch holds two messages: two high-value arbs whose immediate execution had
  failed.
\<close>

definition batchWorld :: world where
  "batchWorld = \<lparr>atomicBool = True, trace = [],
                  txCtx = AddMsg (AddMsg txctx_New exMsgHigh True) exMsgHigh2 True\<rparr>"

lemmas ex_defs = exEnv_def exEnvLow_def exEnvTwo_def exEnvThree_def exEnvDown_def exCtx_def idleWorld_def busyWorld_def
  batchWorld_def exMsgHigh_def exMsgHigh2_def exMsgLow_def exOrderbook_def exOrderbook2_def

section \<open>The arithmetic of the search interval\<close>

lemma mid_eq:
  "TruncateInt (Ceil (QuoRoundup (ToLegacyDec a + ToLegacyDec b) two)) = (a + b + 1) div 2"
proof -
  have "\<lceil>(of_int (a + b) :: rat) / of_int 2\<rceil> = - (- (a + b) div 2)"
    by (rule ceiling_divide_eq_div)
  then have "\<lceil>(of_int a + of_int b :: rat) / 2\<rceil> = (a + b + 1) div 2"
    by (simp add: algebra_simps)
  then show ?thesis
    by (simp add: TruncateInt_def Ceil_def QuoRoundup_def ToLegacyDec_def two_def)
qed

lemma high_eq:
  assumes "0 \<le> p"
  shows "TruncateInt (ToLegacyDec p * multiplier) = p * 105 div 100"
proof -
  have "(of_int p :: rat) * (105 / 100) = of_int (p * 105) / of_int 100" by simp
  then have "\<lfloor>(of_int p :: rat) * (105 / 100)\<rfloor> = p * 105 div 100"
    by (simp only: floor_divide_of_int_eq)
  moreover have "0 \<le> (of_int p :: rat) * (105 / 100)" using assms by simp
  ultimately show ?thesis
    by (simp add: TruncateInt_def ToLegacyDec_def multiplier_def)
qed

lemma band_lower: "0 \<le> (p::int) \<Longrightarrow> p \<le> p * 105 div 100"
proof -
  assume "0 \<le> p"
  then have "p * 100 div 100 \<le> p * 105 div 100" by (intro zdiv_mono1) simp_all
  then show ?thesis by simp
qed

lemma band_upper: "(a::int) \<le> p * 105 div 100 \<Longrightarrow> 100 * a \<le> 105 * p"
proof -
  assume a: "a \<le> p * 105 div 100"
  have "100 * (p * 105 div 100) \<le> p * 105"
    using div_mult_mod_eq[of "p * 105" 100] pos_mod_sign[of 100 "p * 105"] by linarith
  then show ?thesis using a by linarith
qed

section \<open>The recursive search\<close>

lemma tryValidate_zero: "tryValidate e w lo hi di do ob m 0 = (w, m, lo, None)"
  by (subst tryValidate.simps) simp

lemma tryValidate_up:
  assumes "n \<noteq> 0" and "validateArb e (trace w) (midpoint lo hi) di do ob = Inr c"
    and "maxFeeCap m \<le> maxFeeCap c"
  shows "tryValidate e w lo hi di do ob m n =
         tryValidate e (emit (ValidateArb (midpoint lo hi) di do ob) w) (midpoint lo hi) hi di do ob c (n - 1)"
  using assms by (subst tryValidate.simps) (simp add: Let_def mid_eq midpoint_def)

lemma tryValidate_down:
  assumes "n \<noteq> 0"
    and "\<not> (case validateArb e (trace w) (midpoint lo hi) di do ob of
              Inl err \<Rightarrow> False | Inr c \<Rightarrow> maxFeeCap m \<le> maxFeeCap c)"
  shows "tryValidate e w lo hi di do ob m n =
         (case tryValidate e (emit (ValidateArb (midpoint lo hi) di do ob) w) lo (midpoint lo hi) di do ob m (n - 1) of
            (w2, t, ta, err) \<Rightarrow>
              if err = None \<and> maxFeeCap m \<le> maxFeeCap t then (w2, t, ta, None) else (w2, m, lo, None))"
  using assms by (subst tryValidate.simps) (simp add: Let_def mid_eq midpoint_def)

lemma tryValidate_inv:
  "searchInv e w lo hi di do ob m (unat n) (tryValidate e w lo hi di do ob m n)"
proof (induction "unat n" arbitrary: n w lo hi m)
  case 0
  then have "n = 0" by (simp add: unat_eq_0)
  then show ?case by (simp add: tryValidate_zero searchInv_def)
next
  case (Suc k)
  then have n0: "n \<noteq> 0" by auto
  have k: "k = unat (n - 1)" using Suc(2) n0 by (simp add: unat_minus_one)
  define mid where "mid = midpoint lo hi"
  define w1 where "w1 = emit (ValidateArb mid di do ob) w"
  have mb: "lo \<le> hi \<Longrightarrow> lo \<le> mid \<and> mid \<le> hi"
    unfolding mid_def midpoint_def by presburger
  show ?case
  proof (cases "case validateArb e (trace w) mid di do ob of
                  Inl err \<Rightarrow> False | Inr c \<Rightarrow> maxFeeCap m \<le> maxFeeCap c")
    case True
    then obtain c where c: "validateArb e (trace w) mid di do ob = Inr c" "maxFeeCap m \<le> maxFeeCap c"
      by (auto split: sum.splits)
    have eq: "tryValidate e w lo hi di do ob m n = tryValidate e w1 mid hi di do ob c (n - 1)"
      using tryValidate_up[OF n0] c unfolding mid_def w1_def by simp
    have IH: "searchInv e w1 mid hi di do ob c k (tryValidate e w1 mid hi di do ob c (n - 1))"
      using Suc(1)[OF k] k by simp
    show ?thesis
      unfolding eq Suc(2)[symmetric]
      using IH c mb
      by (auto simp: searchInv_def w1_def emit_def split: prod.splits)
  next
    case False
    have eq: "tryValidate e w lo hi di do ob m n =
         (case tryValidate e w1 lo mid di do ob m (n - 1) of
            (w2, t, ta, err) \<Rightarrow>
              if err = None \<and> maxFeeCap m \<le> maxFeeCap t then (w2, t, ta, None) else (w2, m, lo, None))"
      using tryValidate_down[OF n0] False unfolding mid_def w1_def by simp
    have IH: "searchInv e w1 lo mid di do ob m k (tryValidate e w1 lo mid di do ob m (n - 1))"
      using Suc(1)[OF k] k by simp
    show ?thesis
      unfolding eq Suc(2)[symmetric]
      using IH mb
      by (auto simp: searchInv_def w1_def emit_def split: prod.splits)
  qed
qed

lemma tryValidate_elim:
  obtains w' c a evs where
    "tryValidate e w lo hi di do ob m n = (w', c, a, None)"
    "w' = w\<lparr>trace := trace w @ evs\<rparr>"
    "length evs = unat n"
    "list_all isValidateArb evs"
    "maxFeeCap m \<le> maxFeeCap c"
    "c = m \<and> a = lo \<or> (\<exists>tr. validateArb e tr a di do ob = Inr c)"
    "lo \<le> hi \<longrightarrow> lo \<le> a \<and> a \<le> hi"
proof -
  obtain w' c a err where res: "tryValidate e w lo hi di do ob m n = (w', c, a, err)"
    by (cases "tryValidate e w lo hi di do ob m n")
  have inv: "searchInv e w lo hi di do ob m (unat n) (w', c, a, err)"
    using tryValidate_inv[of e w lo hi di do ob m n] res by simp
  then have "\<exists>evs. w' = w\<lparr>trace := trace w @ evs\<rparr> \<and> length evs = unat n \<and>
      list_all isValidateArb evs"
    by (simp add: searchInv_def)
  then obtain evs where "w' = w\<lparr>trace := trace w @ evs\<rparr>" "length evs = unat n"
      "list_all isValidateArb evs"
    by (elim exE conjE)
  moreover have "err = None" "maxFeeCap m \<le> maxFeeCap c"
      "c = m \<and> a = lo \<or> (\<exists>tr. validateArb e tr a di do ob = Inr c)"
      "lo \<le> hi \<longrightarrow> lo \<le> a \<and> a \<le> hi"
    using inv unfolding searchInv_def by simp_all
  ultimately show thesis using res that by simp
qed

lemma fillImmediate_txCtx: "txCtx (fst (fillImmediate e ctx w c)) = txCtx w"
  by (cases "executeTx e (trace w) (blockHeight ctx)
               (UpdateAdjustedGasTotal (AddMsg txctx_New c True)
                  (GetAdjustedGasUsedTotal (AddMsg txctx_New c True) * 110 div 100))")
     (auto simp: fillImmediate_def Let_def emit_def logger_def split: error.splits)

lemma compute_valid:
  assumes "validateArb e (trace w) p di do ob = Inr c0"
    and "tryValidate e (emit (ValidateArb p di do ob) w) p (TruncateInt (ToLegacyDec p * multiplier))
           di do ob c0 maxRecursionAttemptsArbSearch = (w1, c, a, None)"
  shows "\<exists>w2 b. computePerfectArbAmountIfExists e ctx w p di do ob = (w2, a, None) \<and>
               txCtx w2 = AddMsg (txCtx w1) c b"
proof (cases "isLowValue c")
  case True
  have "computePerfectArbAmountIfExists e ctx w p di do ob =
          (w1\<lparr>txCtx := AddMsg (txCtx w1) c False\<rparr>, a, None)"
    using assms True by (simp add: computePerfectArbAmountIfExists_def Let_def)
  then show ?thesis by (intro exI[of _ "w1\<lparr>txCtx := AddMsg (txCtx w1) c False\<rparr>"] exI[of _ False]) simp
next
  case False
  obtain w' r where f: "fillImmediate e ctx w1 c = (w', r)" by (cases "fillImmediate e ctx w1 c")
  have t: "txCtx w' = txCtx w1" using fillImmediate_txCtx[of e ctx w1 c] f by simp
  show ?thesis
  proof (cases r)
    case None
    have "computePerfectArbAmountIfExists e ctx w p di do ob =
            (w'\<lparr>txCtx := AddMsg (txCtx w') c False\<rparr>, a, None)"
      using assms False f None by (simp add: computePerfectArbAmountIfExists_def Let_def)
    then show ?thesis using t
      by (intro exI[of _ "w'\<lparr>txCtx := AddMsg (txCtx w') c False\<rparr>"] exI[of _ False]) simp
  next
    case (Some ie)
    define w'' where "w'' = logger Error ''failed to fill high value route immediately'' w'"
    have "computePerfectArbAmountIfExists e ctx w p di do ob =
            (w''\<lparr>txCtx := AddMsg (txCtx w'') c True\<rparr>, a, None)"
      using assms False f Some by (simp add: computePerfectArbAmountIfExists_def Let_def w''_def)
    moreover have "txCtx w'' = txCtx w1" using t by (simp add: w''_def logger_def emit_def)
    ultimately show ?thesis
      by (intro exI[of _ "w''\<lparr>txCtx := AddMsg (txCtx w'') c True\<rparr>"] exI[of _ True]) simp
  qed
qed

lemma fillImmediate_trace: "\<exists>evs. trace (fst (fillImmediate e ctx w c)) = trace w @ evs"
  by (cases "executeTx e (trace w) (blockHeight ctx)
               (UpdateAdjustedGasTotal (AddMsg txctx_New c True)
                  (GetAdjustedGasUsedTotal (AddMsg txctx_New c True) * 110 div 100))")
     (auto simp: fillImmediate_def Let_def emit_def logger_def split: error.splits)

lemma compute_trace:
  "\<exists>evs. trace (fst (computePerfectArbAmountIfExists e ctx w p di do ob)) =
          trace w @ ValidateArb p di do ob # evs"
proof (cases "validateArb e (trace w) p di do ob")
  case (Inl err)
  then show ?thesis by (simp add: computePerfectArbAmountIfExists_def Let_def emit_def)
next
  case (Inr c0)
  define w0 where "w0 = emit (ValidateArb p di do ob) w"
  obtain w1 c a evs where r:
    "tryValidate e w0 p (TruncateInt (ToLegacyDec p * multiplier)) di do ob c0 maxRecursionAttemptsArbSearch
       = (w1, c, a, None)"
    "w1 = w0\<lparr>trace := trace w0 @ evs\<rparr>"
    by (rule tryValidate_elim)
  have t1: "trace w1 = trace w @ ValidateArb p di do ob # evs"
    using r(2) by (simp add: w0_def emit_def)
  show ?thesis
  proof (cases "isLowValue c")
    case True
    have "computePerfectArbAmountIfExists e ctx w p di do ob =
            (w1\<lparr>txCtx := AddMsg (txCtx w1) c False\<rparr>, a, None)"
      using Inr r(1) True by (simp add: computePerfectArbAmountIfExists_def Let_def w0_def)
    then show ?thesis using t1 by simp
  next
    case False
    obtain w' res where f: "fillImmediate e ctx w1 c = (w', res)" by (cases "fillImmediate e ctx w1 c")
    obtain evs' where t: "trace w' = trace w1 @ evs'"
      using fillImmediate_trace[of e ctx w1 c] f by auto
    show ?thesis
    proof (cases res)
      case None
      have "computePerfectArbAmountIfExists e ctx w p di do ob =
              (w'\<lparr>txCtx := AddMsg (txCtx w') c False\<rparr>, a, None)"
        using Inr r(1) False f None by (simp add: computePerfectArbAmountIfExists_def Let_def w0_def)
      then show ?thesis using t t1 by simp
    next
      case (Some ie)
      have "computePerfectArbAmountIfExists e ctx w p di do ob =
              ((logger Error ''failed to fill high value route immediately'' w')
                 \<lparr>txCtx := AddMsg (txCtx (logger Error ''failed to fill high value route immediately'' w')) c True\<rparr>,
               a, None)"
        using Inr r(1) False f Some by (simp add: computePerfectArbAmountIfExists_def Let_def w0_def)
      then show ?thesis using t t1 by (simp add: logger_def emit_def)
    qed
  qed
qed

text \<open>
  Claim C5. Let the proposed amount \<open>p\<close> be a token amount, \<open>0 \<le> p\<close>, that validates to the
  message \<open>c0\<close>. Then the search started by \<^verbatim>\<open>computePerfectArbAmountIfExists\<close> returns a
  message \<open>c\<close> and an amount \<open>a\<close> without error, the function returns that amount \<open>a\<close> and hands
  \<open>c\<close> to the Transaction Context, \<open>a\<close> lies between \<open>p\<close> and \<open>p\<close> times 1.05, and the fee cap
  of \<open>c\<close> is at least the fee cap of \<open>c0\<close>.
\<close>

theorem search_amount_in_band:
  assumes "validateArb e (trace w) p di do ob = Inr c0" and "0 \<le> p"
  shows "\<exists>w1 c a w2 b.
           tryValidate e (emit (ValidateArb p di do ob) w) p (TruncateInt (ToLegacyDec p * multiplier))
             di do ob c0 maxRecursionAttemptsArbSearch = (w1, c, a, None) \<and>
           computePerfectArbAmountIfExists e ctx w p di do ob = (w2, a, None) \<and>
           txCtx w2 = AddMsg (txCtx w) c b \<and>
           p \<le> a \<and> ToLegacyDec a \<le> ToLegacyDec p * multiplier \<and>
           maxFeeCap c0 \<le> maxFeeCap c"
proof -
  define hi where "hi = TruncateInt (ToLegacyDec p * multiplier)"
  define w0 where "w0 = emit (ValidateArb p di do ob) w"
  have hi: "hi = p * 105 div 100" unfolding hi_def using assms(2) by (rule high_eq)
  have le: "p \<le> hi" unfolding hi using assms(2) by (rule band_lower)
  obtain w1 c a evs where r: "tryValidate e w0 p hi di do ob c0 maxRecursionAttemptsArbSearch = (w1, c, a, None)"
    "w1 = w0\<lparr>trace := trace w0 @ evs\<rparr>" "maxFeeCap c0 \<le> maxFeeCap c" "p \<le> hi \<longrightarrow> p \<le> a \<and> a \<le> hi"
    by (rule tryValidate_elim[of e w0 p hi di do ob c0 maxRecursionAttemptsArbSearch])
  obtain w2 b where c: "computePerfectArbAmountIfExists e ctx w p di do ob = (w2, a, None)"
    "txCtx w2 = AddMsg (txCtx w1) c b"
    using compute_valid[OF assms(1) r(1)[unfolded hi_def w0_def]] by blast
  have t: "txCtx w1 = txCtx w" using r(2) by (simp add: w0_def emit_def)
  have "a \<le> p * 105 div 100" using r(4) le hi by simp
  then have "100 * a \<le> 105 * p" by (rule band_upper)
  then have "(of_int (100 * a) :: rat) \<le> of_int (105 * p)" by (simp only: of_int_le_iff)
  then have up: "ToLegacyDec a \<le> ToLegacyDec p * multiplier"
    by (simp add: ToLegacyDec_def multiplier_def)
  have "p \<le> a" using r(4) le by simp
  then show ?thesis
    using r(1,3) c t up unfolding hi_def w0_def by (intro exI[of _ w1] exI[of _ c] exI[of _ a] exI[of _ w2] exI[of _ b]) simp
qed

text \<open>The band at the proposed amount 100 of the concrete block.\<close>

theorem search_amount_in_band_witness:
  "validateArb exEnv (trace idleWorld) 100 ''uusdc'' ''uosmo'' 1 = Inr exMsgHigh \<and> (0::int) \<le> 100 \<and>
   (\<exists>w1 c a w2 b.
      tryValidate exEnv (emit (ValidateArb 100 ''uusdc'' ''uosmo'' 1) idleWorld) 100
        (TruncateInt (ToLegacyDec 100 * multiplier)) ''uusdc'' ''uosmo'' 1 exMsgHigh
        maxRecursionAttemptsArbSearch = (w1, c, a, None) \<and>
      computePerfectArbAmountIfExists exEnv exCtx idleWorld 100 ''uusdc'' ''uosmo'' 1 = (w2, a, None) \<and>
      txCtx w2 = AddMsg (txCtx idleWorld) c b \<and>
      100 \<le> a \<and> ToLegacyDec a \<le> ToLegacyDec 100 * multiplier \<and>
      maxFeeCap exMsgHigh \<le> maxFeeCap c)"
proof -
  have h: "validateArb exEnv (trace idleWorld) 100 ''uusdc'' ''uosmo'' 1 = Inr exMsgHigh"
    by (simp add: exEnv_def)
  have p: "(0::int) \<le> 100" by simp
  show ?thesis using h p search_amount_in_band[OF h p, of exCtx] by blast
qed

text \<open>
  Claim C6. \<^verbatim>\<open>tryValidate\<close> is a total function: its counter decreases by one at each
  recursive call, which is the measure of its termination proof. A call with the counter \<open>n\<close>
  makes exactly \<open>unat n\<close> validations, which is 15 for the initial bound
  \<^verbatim>\<open>maxRecursionAttemptsArbSearch\<close>, and changes nothing else. It returns no error, and the
  message and amount it returns are either the validated message and amount it was given or a
  message that \<^verbatim>\<open>validateArb\<close> returned for the returned amount.
\<close>

theorem tryValidate_bounded_rounds:
  "unat maxRecursionAttemptsArbSearch = 15 \<and>
   (\<exists>w' c a evs. tryValidate e w lo hi di do ob m n = (w', c, a, None) \<and>
      w' = w\<lparr>trace := trace w @ evs\<rparr> \<and> length evs = unat n \<and> list_all isValidateArb evs \<and>
      (c = m \<and> a = lo \<or> (\<exists>tr. validateArb e tr a di do ob = Inr c)))"
proof -
  obtain w' c a evs where "tryValidate e w lo hi di do ob m n = (w', c, a, None)"
      "w' = w\<lparr>trace := trace w @ evs\<rparr>" "length evs = unat n" "list_all isValidateArb evs"
      "c = m \<and> a = lo \<or> (\<exists>tr. validateArb e tr a di do ob = Inr c)"
    by (rule tryValidate_elim[of e w lo hi di do ob m n])
  then have "\<exists>w' c a evs. tryValidate e w lo hi di do ob m n = (w', c, a, None) \<and>
      w' = w\<lparr>trace := trace w @ evs\<rparr> \<and> length evs = unat n \<and> list_all isValidateArb evs \<and>
      (c = m \<and> a = lo \<or> (\<exists>tr. validateArb e tr a di do ob = Inr c))"
    by blast
  then show ?thesis by (simp add: maxRecursionAttemptsArbSearch_def)
qed

text \<open>
  Claim C7. The error that \<^verbatim>\<open>tryValidate\<close> returns is nil on every input, so the test
  \<^verbatim>\<open>err != nil\<close> that guards the return of the proposed amount after a failed search is never
  true; and \<^verbatim>\<open>computePerfectArbAmountIfExists\<close> returns an error exactly when the validation
  of the proposed amount fails.
\<close>

theorem tryValidate_never_errs:
  "snd (snd (snd (tryValidate e w lo hi di do ob m n))) = None \<and>
   ((\<exists>err. snd (snd (computePerfectArbAmountIfExists e ctx w p di do ob)) = Some err) =
    (\<exists>err. validateArb e (trace w) p di do ob = Inl err))"
proof
  show "snd (snd (snd (tryValidate e w lo hi di do ob m n))) = None"
    by (rule tryValidate_elim[of e w lo hi di do ob m n]) simp
next
  show "(\<exists>err. snd (snd (computePerfectArbAmountIfExists e ctx w p di do ob)) = Some err) =
        (\<exists>err. validateArb e (trace w) p di do ob = Inl err)"
  proof (cases "validateArb e (trace w) p di do ob")
    case (Inl err)
    then show ?thesis by (simp add: computePerfectArbAmountIfExists_def Let_def)
  next
    case (Inr c0)
    obtain w1 c a where r: "tryValidate e (emit (ValidateArb p di do ob) w) p
        (TruncateInt (ToLegacyDec p * multiplier)) di do ob c0 maxRecursionAttemptsArbSearch = (w1, c, a, None)"
      by (rule tryValidate_elim)
    obtain w2 b where "computePerfectArbAmountIfExists e ctx w p di do ob = (w2, a, None)"
      using compute_valid[OF Inr r, of ctx] by blast
    then show ?thesis using Inr by simp
  qed
qed

text \<open>
  Claim C10. If the validation of the proposed amount fails with \<open>err\<close>,
  \<^verbatim>\<open>computePerfectArbAmountIfExists\<close> returns the zero amount and \<open>err\<close>; the validation is the
  only effect, and the Transaction Context is unchanged.
\<close>

theorem invalid_proposed_amount:
  assumes "validateArb e (trace w) p di do ob = Inl err"
  shows "computePerfectArbAmountIfExists e ctx w p di do ob =
           (w\<lparr>trace := trace w @ [ValidateArb p di do ob]\<rparr>, 0, Some err) \<and>
         txCtx (fst (computePerfectArbAmountIfExists e ctx w p di do ob)) = txCtx w"
  using assms by (simp add: computePerfectArbAmountIfExists_def Let_def emit_def)

text \<open>In the concrete block the amount 7 does not validate.\<close>

theorem invalid_proposed_amount_witness:
  "validateArb exEnv (trace idleWorld) 7 ''uusdc'' ''uosmo'' 1 = Inl (Err ''not profitable'') \<and>
   computePerfectArbAmountIfExists exEnv exCtx idleWorld 7 ''uusdc'' ''uosmo'' 1 =
     (idleWorld\<lparr>trace := [ValidateArb 7 ''uusdc'' ''uosmo'' 1]\<rparr>, 0, Some (Err ''not profitable'')) \<and>
   txCtx (fst (computePerfectArbAmountIfExists exEnv exCtx idleWorld 7 ''uusdc'' ''uosmo'' 1)) = txctx_New"
proof -
  have h: "validateArb exEnv (trace idleWorld) 7 ''uusdc'' ''uosmo'' 1 = Inl (Err ''not profitable'')"
    by (simp add: exEnv_def)
  show ?thesis using h invalid_proposed_amount[OF h, of exCtx] by (simp add: idleWorld_def)
qed

text \<open>
  What \<^verbatim>\<open>computePerfectArbAmountIfExists\<close> does with the winner \<open>c\<close> of the search. A winner
  that is not of low value is executed at once by \<^verbatim>\<open>fillImmediate\<close>, and added to the batch
  if that execution fails; a winner whose execution succeeds, and a winner of low value, are
  passed to \<^verbatim>\<open>AddMsg\<close> with the marker clear.
\<close>

lemma compute_after_search:
  assumes "validateArb e (trace w) p di do ob = Inr c0"
    and "tryValidate e (emit (ValidateArb p di do ob) w) p (TruncateInt (ToLegacyDec p * multiplier))
           di do ob c0 maxRecursionAttemptsArbSearch = (w1, c, a, None)"
  shows "computePerfectArbAmountIfExists e ctx w p di do ob =
           (if isLowValue c then (w1\<lparr>txCtx := AddMsg (txCtx w1) c False\<rparr>, a, None)
            else case fillImmediate e ctx w1 c of
                   (w', None) \<Rightarrow> (w'\<lparr>txCtx := AddMsg (txCtx w1) c False\<rparr>, a, None)
                 | (w', Some ie) \<Rightarrow>
                     ((logger Error ''failed to fill high value route immediately'' w')
                        \<lparr>txCtx := AddMsg (txCtx w1) c True\<rparr>, a, None))"
proof (cases "isLowValue c")
  case True
  then show ?thesis using assms by (simp add: computePerfectArbAmountIfExists_def Let_def)
next
  case False
  obtain w' r where f: "fillImmediate e ctx w1 c = (w', r)" by (cases "fillImmediate e ctx w1 c")
  have t: "txCtx w' = txCtx w1" using fillImmediate_txCtx[of e ctx w1 c] f by simp
  show ?thesis using assms False f t
    by (cases r) (simp_all add: computePerfectArbAmountIfExists_def Let_def logger_def emit_def)
qed

lemma validations_execute_nothing: "list_all isValidateArb evs \<Longrightarrow> filter isExecuteTx evs = []"
proof (induction evs)
  case Nil
  show ?case by simp
next
  case (Cons ev evs)
  then show ?case by (cases ev) simp_all
qed

text \<open>
  Claim C2. Let the proposed amount validate, and let \<open>c\<close> be the winner of the search. If \<open>c\<close>
  is not of low value, the one execution of the call is that of a fresh Transaction Context
  that holds \<open>c\<close> alone, with the gas estimate of \<open>c\<close> scaled by \<^verbatim>\<open>110 / 100\<close>; if that
  execution fails, \<open>c\<close> is appended to the pending batch of the shared Transaction Context,
  and if it succeeds the batch is as before and the pool of \<open>c\<close> is logged as used. If \<open>c\<close>
  is of low value nothing is executed and \<open>c\<close> is appended to the pending batch of the shared
  Transaction Context, the one \<^verbatim>\<open>tryFill\<close> reads.
\<close>

theorem winner_executed_or_batched:
  assumes "validateArb e (trace w) p di do ob = Inr c0"
  shows "\<exists>w1 c a w2.
     tryValidate e (emit (ValidateArb p di do ob) w) p (TruncateInt (ToLegacyDec p * multiplier))
       di do ob c0 maxRecursionAttemptsArbSearch = (w1, c, a, None) \<and>
     computePerfectArbAmountIfExists e ctx w p di do ob = (w2, a, None) \<and>
     (if isLowValue c
      then filter isExecuteTx (trace w2) = filter isExecuteTx (trace w) \<and>
           GetMsgs (txCtx w2) = GetMsgs (txCtx w) @ [c]
      else filter isExecuteTx (trace w2) =
             filter isExecuteTx (trace w) @
               [ExecuteTx (blockHeight ctx)
                  \<lparr>msgs = [c], usedPools = [], adjustedGasUsedTotal = adjustedGasUsed c * 110 div 100\<rparr>] \<and>
           (case executeTx e (trace w1) (blockHeight ctx)
                   \<lparr>msgs = [c], usedPools = [], adjustedGasUsedTotal = adjustedGasUsed c * 110 div 100\<rparr> of
              Some err \<Rightarrow> GetMsgs (txCtx w2) = GetMsgs (txCtx w) @ [c]
            | None \<Rightarrow> GetMsgs (txCtx w2) = GetMsgs (txCtx w) \<and>
                       usedPools (txCtx w2) = usedPools (txCtx w) @ [msgPoolID c]))"
proof -
  define w0 where "w0 = emit (ValidateArb p di do ob) w"
  define T where "T = \<lparr>msgs = [c0], usedPools = [], adjustedGasUsedTotal = 0\<rparr>"
  obtain w1 c a evs where r:
    "tryValidate e w0 p (TruncateInt (ToLegacyDec p * multiplier)) di do ob c0 maxRecursionAttemptsArbSearch
       = (w1, c, a, None)"
    "w1 = w0\<lparr>trace := trace w0 @ evs\<rparr>"
    "length evs = unat maxRecursionAttemptsArbSearch"
    "list_all isValidateArb evs"
    by (rule tryValidate_elim)
  have x1: "filter isExecuteTx (trace w1) = filter isExecuteTx (trace w)"
    using r(2) validations_execute_nothing[OF r(4)] by (simp add: w0_def emit_def)
  have t1: "txCtx w1 = txCtx w" using r(2) by (simp add: w0_def emit_def)
  note cs = compute_after_search[OF assms r(1)[unfolded w0_def], of ctx]
  define I where "I = \<lparr>msgs = [c], usedPools = [], adjustedGasUsedTotal = adjustedGasUsed c * 110 div 100\<rparr>"
  have I: "UpdateAdjustedGasTotal (AddMsg txctx_New c True)
             (GetAdjustedGasUsedTotal (AddMsg txctx_New c True) * 110 div 100) = I"
    by (simp add: I_def AddMsg_def txctx_New_def UpdateAdjustedGasTotal_def GetAdjustedGasUsedTotal_def)
  show ?thesis
  proof (cases "isLowValue c")
    case True
    have "computePerfectArbAmountIfExists e ctx w p di do ob =
            (w1\<lparr>txCtx := AddMsg (txCtx w1) c False\<rparr>, a, None)"
      using cs True by simp
    then show ?thesis using True r(1) x1 t1 unfolding w0_def
      by (intro exI[of _ w1] exI[of _ c] exI[of _ a] exI[of _ "w1\<lparr>txCtx := AddMsg (txCtx w1) c False\<rparr>"])
         (simp add: AddMsg_def GetMsgs_def)
  next
    case False
    show ?thesis
    proof (cases "executeTx e (trace w1) (blockHeight ctx) I")
      case None
      define w' where "w' = logger Info ''Executed immediate fill transaction''
                               (emit (ExecuteTx (blockHeight ctx) I) w1)"
      have f: "fillImmediate e ctx w1 c = (w', None)"
        using None I by (simp add: fillImmediate_def Let_def w'_def)
      have "computePerfectArbAmountIfExists e ctx w p di do ob =
              (w'\<lparr>txCtx := AddMsg (txCtx w1) c False\<rparr>, a, None)"
        using cs False f by simp
      then show ?thesis using False None r(1) x1 t1 unfolding w0_def I_def
        by (intro exI[of _ w1] exI[of _ c] exI[of _ a] exI[of _ "w'\<lparr>txCtx := AddMsg (txCtx w1) c False\<rparr>"])
           (simp add: AddMsg_def GetMsgs_def w'_def I_def logger_def emit_def)
    next
      case (Some err)
      obtain msg where err: "err = Err msg" by (cases err)
      define w' where "w' = emit (ExecuteTx (blockHeight ctx) I) w1"
      have f: "fillImmediate e ctx w1 c =
                 (w', Some (Err (''failed to execute immediate fill transaction: '' @ msg)))"
        using Some err I by (simp add: fillImmediate_def Let_def w'_def)
      have "computePerfectArbAmountIfExists e ctx w p di do ob =
              ((logger Error ''failed to fill high value route immediately'' w')
                 \<lparr>txCtx := AddMsg (txCtx w1) c True\<rparr>, a, None)"
        using cs False f by simp
      then show ?thesis using False Some r(1) x1 t1 unfolding w0_def I_def
        by (intro exI[of _ w1] exI[of _ c] exI[of _ a]
              exI[of _ "(logger Error ''failed to fill high value route immediately'' w')
                 \<lparr>txCtx := AddMsg (txCtx w1) c True\<rparr>"])
           (simp add: AddMsg_def GetMsgs_def w'_def I_def logger_def emit_def)
    qed
  qed
qed

text \<open>The search of the block of \<open>exEnvLow\<close> at the proposed amount 100.\<close>

lemma low_value_search_run:
  "computePerfectArbAmountIfExists exEnvLow exCtx idleWorld 100 ''uusdc'' ''uosmo'' 1 =
     (idleWorld\<lparr>trace :=
        [ValidateArb 100 ''uusdc'' ''uosmo'' 1, ValidateArb 103 ''uusdc'' ''uosmo'' 1,
         ValidateArb 102 ''uusdc'' ''uosmo'' 1, ValidateArb 101 ''uusdc'' ''uosmo'' 1,
         ValidateArb 101 ''uusdc'' ''uosmo'' 1, ValidateArb 101 ''uusdc'' ''uosmo'' 1,
         ValidateArb 101 ''uusdc'' ''uosmo'' 1, ValidateArb 101 ''uusdc'' ''uosmo'' 1,
         ValidateArb 101 ''uusdc'' ''uosmo'' 1, ValidateArb 101 ''uusdc'' ''uosmo'' 1,
         ValidateArb 101 ''uusdc'' ''uosmo'' 1, ValidateArb 101 ''uusdc'' ''uosmo'' 1,
         ValidateArb 101 ''uusdc'' ''uosmo'' 1, ValidateArb 101 ''uusdc'' ''uosmo'' 1,
         ValidateArb 101 ''uusdc'' ''uosmo'' 1, ValidateArb 101 ''uusdc'' ''uosmo'' 1],
        txCtx := \<lparr>msgs = [exMsgLow], usedPools = [], adjustedGasUsedTotal = 100000\<rparr>\<rparr>, 100, None)"
  by (simp add: computePerfectArbAmountIfExists_def Let_def high_eq maxRecursionAttemptsArbSearch_def
      tryValidate_down tryValidate_zero midpoint_def AddMsg_def txctx_New_def
      exEnvLow_def exEnv_def emit_def idleWorld_def exMsgLow_def exCtx_def)

text \<open>
  In the block of \<open>exEnvLow\<close> the amount 100 validates; the winner is the low-value message
  \<open>exMsgLow\<close>, and the batch, empty before, holds it alone.
\<close>

theorem winner_executed_or_batched_witness:
  "validateArb exEnvLow (trace idleWorld) 100 ''uusdc'' ''uosmo'' 1 = Inr exMsgLow \<and>
   isLowValue exMsgLow \<and>
   (\<exists>w1 a w2.
      tryValidate exEnvLow (emit (ValidateArb 100 ''uusdc'' ''uosmo'' 1) idleWorld) 100
        (TruncateInt (ToLegacyDec 100 * multiplier)) ''uusdc'' ''uosmo'' 1 exMsgLow
        maxRecursionAttemptsArbSearch = (w1, exMsgLow, a, None) \<and>
      computePerfectArbAmountIfExists exEnvLow exCtx idleWorld 100 ''uusdc'' ''uosmo'' 1 = (w2, a, None) \<and>
      filter isExecuteTx (trace w2) = [] \<and>
      GetMsgs (txCtx w2) = [exMsgLow])"
proof -
  have h: "validateArb exEnvLow (trace idleWorld) 100 ''uusdc'' ''uosmo'' 1 = Inr exMsgLow"
    by (simp add: exEnvLow_def exEnv_def)
  have l: "isLowValue exMsgLow" by (simp add: exMsgLow_def)
  obtain w1 c a w2 where r:
    "tryValidate exEnvLow (emit (ValidateArb 100 ''uusdc'' ''uosmo'' 1) idleWorld) 100
        (TruncateInt (ToLegacyDec 100 * multiplier)) ''uusdc'' ''uosmo'' 1 exMsgLow
        maxRecursionAttemptsArbSearch = (w1, c, a, None)"
    "computePerfectArbAmountIfExists exEnvLow exCtx idleWorld 100 ''uusdc'' ''uosmo'' 1 = (w2, a, None)"
    "if isLowValue c
      then filter isExecuteTx (trace w2) = filter isExecuteTx (trace idleWorld) \<and>
           GetMsgs (txCtx w2) = GetMsgs (txCtx idleWorld) @ [c]
      else filter isExecuteTx (trace w2) =
             filter isExecuteTx (trace idleWorld) @
               [ExecuteTx (blockHeight exCtx)
                  \<lparr>msgs = [c], usedPools = [], adjustedGasUsedTotal = adjustedGasUsed c * 110 div 100\<rparr>] \<and>
           (case executeTx exEnvLow (trace w1) (blockHeight exCtx)
                   \<lparr>msgs = [c], usedPools = [], adjustedGasUsedTotal = adjustedGasUsed c * 110 div 100\<rparr> of
              Some err \<Rightarrow> GetMsgs (txCtx w2) = GetMsgs (txCtx idleWorld) @ [c]
            | None \<Rightarrow> GetMsgs (txCtx w2) = GetMsgs (txCtx idleWorld) \<and>
                       usedPools (txCtx w2) = usedPools (txCtx idleWorld) @ [msgPoolID c])"
    using winner_executed_or_batched[OF h, of exCtx] by blast
  have "GetMsgs (txCtx w2) = [exMsgLow]"
    using r(2) unfolding low_value_search_run by (auto simp: GetMsgs_def)
  then have c: "c = exMsgLow"
    using r(3) by (simp add: idleWorld_def GetMsgs_def txctx_New_def split: if_splits option.splits)
  show ?thesis using h l r c
    by (intro conjI exI[of _ w1] exI[of _ a] exI[of _ w2])
       (simp_all add: idleWorld_def GetMsgs_def txctx_New_def)
qed

section \<open>One order book\<close>

lemma fillAskAndBid_trace:
  "\<exists>evs1 evs2. trace (fillAskAndBid e ctx w ob a b) =
      trace w @ ValidateArb a (Quote ob) (Base ob) (PoolID ob) # evs1 @
                ValidateArb b (Base ob) (Quote ob) (PoolID ob) # evs2"
proof -
  obtain wa ra ea where ca: "computePerfectArbAmountIfExists e ctx w a (Quote ob) (Base ob) (PoolID ob) = (wa, ra, ea)"
    by (cases "computePerfectArbAmountIfExists e ctx w a (Quote ob) (Base ob) (PoolID ob)")
  obtain evs1 where t1: "trace wa = trace w @ ValidateArb a (Quote ob) (Base ob) (PoolID ob) # evs1"
    using compute_trace[of e ctx w a "Quote ob" "Base ob" "PoolID ob"] ca by auto
  define wa' where "wa' = (case ea of Some err \<Rightarrow> logger Error ''failed to fill asks'' wa
                                     | None \<Rightarrow> logger Info ''passed orderbook asks'' wa)"
  obtain l where t2: "trace wa' = trace wa @ [l]"
    by (cases ea) (simp_all add: wa'_def logger_def emit_def)
  obtain wb rb eb where cb: "computePerfectArbAmountIfExists e ctx wa' b (Base ob) (Quote ob) (PoolID ob) = (wb, rb, eb)"
    by (cases "computePerfectArbAmountIfExists e ctx wa' b (Base ob) (Quote ob) (PoolID ob)")
  obtain evs2 where t3: "trace wb = trace wa' @ ValidateArb b (Base ob) (Quote ob) (PoolID ob) # evs2"
    using compute_trace[of e ctx wa' b "Base ob" "Quote ob" "PoolID ob"] cb by auto
  define wb' where "wb' = (case eb of Some err \<Rightarrow> logger Error ''failed to fill bids'' wb
                                     | None \<Rightarrow> logger Info ''passed orderbook bids'' wb)"
  obtain l' where t4: "trace wb' = trace wb @ [l']"
    by (cases eb) (simp_all add: wb'_def logger_def emit_def)
  have "fillAskAndBid e ctx w ob a b = wb'"
    using ca cb by (cases ea; cases eb) (simp_all add: fillAskAndBid_def wa'_def wb'_def)
  then have "trace (fillAskAndBid e ctx w ob a b) =
      trace w @ ValidateArb a (Quote ob) (Base ob) (PoolID ob) # (evs1 @ [l]) @
                ValidateArb b (Base ob) (Quote ob) (PoolID ob) # (evs2 @ [l'])"
    using t1 t2 t3 t4 by simp
  then show ?thesis by blast
qed

text \<open>
  Claim C8. When the fillable amounts are \<open>ask\<close> and \<open>bid\<close>, \<^verbatim>\<open>processOrderBook\<close> searches the
  ask side with the wallet balance of the quote denom if that balance is strictly less than
  \<open>ask\<close>, and with \<open>ask\<close> otherwise, and likewise the bid side with the balance of the base
  denom or \<open>bid\<close>; it logs a warning exactly for the sides it clamps. The first validation of
  each search is at that amount.
\<close>

theorem clamp_to_wallet_balance:
  assumes "getFillableOrders e (trace w) ob = Inr (ask, bid)"
  shows "\<exists>evs1 evs2.
     processOrderBook e ctx w ob =
       (fillAskAndBid e ctx
          (w\<lparr>trace := trace w @ [GetFillableOrders (PoolID ob)] @
              (if userBalances ctx (Quote ob) < ask
               then [Println ask (userBalances ctx (Quote ob)),
                     Log Warn ''user balance less than fillable ask amount'']
               else []) @
              (if userBalances ctx (Base ob) < bid
               then [Println bid (userBalances ctx (Base ob)),
                     Log Warn ''user balance less than fillable bid amount'']
               else [])\<rparr>)
          ob
          (if userBalances ctx (Quote ob) < ask then userBalances ctx (Quote ob) else ask)
          (if userBalances ctx (Base ob) < bid then userBalances ctx (Base ob) else bid),
        None) \<and>
     trace (fst (processOrderBook e ctx w ob)) =
       trace w @ [GetFillableOrders (PoolID ob)] @
       (if userBalances ctx (Quote ob) < ask
        then [Println ask (userBalances ctx (Quote ob)),
              Log Warn ''user balance less than fillable ask amount'']
        else []) @
       (if userBalances ctx (Base ob) < bid
        then [Println bid (userBalances ctx (Base ob)),
              Log Warn ''user balance less than fillable bid amount'']
        else []) @
       ValidateArb (if userBalances ctx (Quote ob) < ask then userBalances ctx (Quote ob) else ask)
         (Quote ob) (Base ob) (PoolID ob) # evs1 @
       ValidateArb (if userBalances ctx (Base ob) < bid then userBalances ctx (Base ob) else bid)
         (Base ob) (Quote ob) (PoolID ob) # evs2"
proof -
  define a where "a = (if userBalances ctx (Quote ob) < ask then userBalances ctx (Quote ob) else ask)"
  define b where "b = (if userBalances ctx (Base ob) < bid then userBalances ctx (Base ob) else bid)"
  define w' where "w' = w\<lparr>trace := trace w @ [GetFillableOrders (PoolID ob)] @
              (if userBalances ctx (Quote ob) < ask
               then [Println ask (userBalances ctx (Quote ob)),
                     Log Warn ''user balance less than fillable ask amount'']
               else []) @
              (if userBalances ctx (Base ob) < bid
               then [Println bid (userBalances ctx (Base ob)),
                     Log Warn ''user balance less than fillable bid amount'']
               else [])\<rparr>"
  have eq: "processOrderBook e ctx w ob = (fillAskAndBid e ctx w' ob a b, None)"
    using assms by (simp add: processOrderBook_def Let_def a_def b_def w'_def emit_def logger_def)
  obtain evs1 evs2 where t: "trace (fillAskAndBid e ctx w' ob a b) =
      trace w' @ ValidateArb a (Quote ob) (Base ob) (PoolID ob) # evs1 @
                 ValidateArb b (Base ob) (Quote ob) (PoolID ob) # evs2"
    using fillAskAndBid_trace by blast
  have "trace (fst (processOrderBook e ctx w ob)) =
      trace w' @ ValidateArb a (Quote ob) (Base ob) (PoolID ob) # evs1 @
                 ValidateArb b (Base ob) (Quote ob) (PoolID ob) # evs2"
    using eq t by simp
  then show ?thesis using eq unfolding a_def b_def w'_def
    by (intro exI[of _ evs1] exI[of _ evs2]) simp
qed

text \<open>A wallet that holds 50 of every denom, against a fillable ask amount of 100.\<close>

theorem clamp_to_wallet_balance_witness:
  "getFillableOrders exEnv (trace idleWorld) exOrderbook = Inr (100, 0) \<and>
   (\<exists>evs1 evs2.
      trace (fst (processOrderBook exEnv (exCtx\<lparr>userBalances := (\<lambda>denom. 50)\<rparr>) idleWorld exOrderbook)) =
        [GetFillableOrders 1, Println 100 50, Log Warn ''user balance less than fillable ask amount'',
         ValidateArb 50 ''uusdc'' ''uosmo'' 1] @ evs1 @ ValidateArb 0 ''uosmo'' ''uusdc'' 1 # evs2)"
proof -
  have h: "getFillableOrders exEnv (trace idleWorld) exOrderbook = Inr (100, 0)"
    by (simp add: exEnv_def)
  obtain evs1 evs2 where
    "trace (fst (processOrderBook exEnv (exCtx\<lparr>userBalances := (\<lambda>denom. 50)\<rparr>) idleWorld exOrderbook)) =
        [GetFillableOrders 1, Println 100 50, Log Warn ''user balance less than fillable ask amount'',
         ValidateArb 50 ''uusdc'' ''uosmo'' 1] @ evs1 @ ValidateArb 0 ''uosmo'' ''uusdc'' 1 # evs2"
    using clamp_to_wallet_balance[OF h, of "exCtx\<lparr>userBalances := (\<lambda>denom. 50)\<rparr>"]
    by (auto simp: exOrderbook_def idleWorld_def)
  then show ?thesis using h by blast
qed

section \<open>Unique denoms\<close>

lemma mapStore_set: "set (mapStore k m) = insert k (set m)"
  by (auto simp: mapStore_def)

lemma mapStore_distinct: "distinct m \<Longrightarrow> distinct (mapStore k m)"
  by (simp add: mapStore_def)

lemma uniqueDenoms_fold:
  "distinct m \<Longrightarrow>
   distinct (foldl (\<lambda>m ob. mapStore (Quote ob) (mapStore (Base ob) m)) m obs) \<and>
   set (foldl (\<lambda>m ob. mapStore (Quote ob) (mapStore (Base ob) m)) m obs) =
     set m \<union> Base ` set obs \<union> Quote ` set obs"
proof (induction obs arbitrary: m)
  case Nil
  then show ?case by simp
next
  case (Cons ob obs)
  have "distinct (mapStore (Quote ob) (mapStore (Base ob) m))"
    using Cons.prems by (intro mapStore_distinct)
  from Cons.IH[OF this] show ?case by (auto simp: mapStore_set)
qed

text \<open>
  Claim C9. Whatever the order in which \<^verbatim>\<open>range\<close> visits the keys of the map, each key once,
  the list that \<^verbatim>\<open>getUniqueOrderbookDenoms\<close> returns has no duplicates and holds exactly the
  base denoms and the quote denoms of the pools and \<^verbatim>\<open>BaseDenom\<close>. The function reads no state
  and returns no error.
\<close>

theorem unique_denoms_complete:
  assumes "\<And>ks. mset (rangeOrder e ks) = mset ks"
  shows "distinct (getUniqueOrderbookDenoms e obs) \<and>
         set (getUniqueOrderbookDenoms e obs) = Base ` set obs \<union> Quote ` set obs \<union> {BaseDenom e}"
proof -
  define m where "m = foldl (\<lambda>m ob. mapStore (Quote ob) (mapStore (Base ob) m)) [] obs"
  have m: "distinct m" "set m = Base ` set obs \<union> Quote ` set obs"
    using uniqueDenoms_fold[of "[]" obs] by (simp_all add: m_def)
  define ks where "ks = mapStore (BaseDenom e) m"
  have ks: "distinct ks" "set ks = Base ` set obs \<union> Quote ` set obs \<union> {BaseDenom e}"
    using m by (auto simp: ks_def mapStore_set mapStore_distinct)
  have r: "getUniqueOrderbookDenoms e obs = rangeOrder e ks"
    by (simp add: getUniqueOrderbookDenoms_def Let_def ks_def m_def)
  have "distinct (rangeOrder e ks)"
    using assms[of ks] ks(1) by (metis mset_eq_imp_distinct_iff)
  moreover have "set (rangeOrder e ks) = set ks"
    using assms[of ks] by (rule mset_eq_setD)
  ultimately show ?thesis using r ks(2) by simp
qed

text \<open>The same pool listed twice, visited in reverse order.\<close>

theorem unique_denoms_complete_witness:
  "(\<forall>ks. mset (rangeOrder exEnv ks) = mset ks) \<and>
   distinct (getUniqueOrderbookDenoms exEnv [exOrderbook, exOrderbook]) \<and>
   set (getUniqueOrderbookDenoms exEnv [exOrderbook, exOrderbook]) = {''uosmo'', ''uusdc''}"
proof -
  have h: "\<And>ks. mset (rangeOrder exEnv ks) = mset ks" by (simp add: exEnv_def)
  show ?thesis
    using h unique_denoms_complete[of exEnv "[exOrderbook, exOrderbook]", OF h]
    by (auto simp: exEnv_def exOrderbook_def)
qed

section \<open>The block orchestrator\<close>





text \<open>The whole run of the block of one order book, on the idle plugin.\<close>

lemma one_pool_block_run:
  "ProcessEndBlock exEnv idleWorld 7 {1} =
     (idleWorld\<lparr>trace :=
        [GetAllCanonicalOrderbookPoolIDs, FetchTicksForOrderbook 1,
         Log Error ''failed to fetch ticks for orderbook'', AllBalances,
         GetPrices [''uusdc'', ''uosmo''], BlockCtxNew, GetFillableOrders 1,
         ValidateArb 100 ''uusdc'' ''uosmo'' 1, ValidateArb 103 ''uusdc'' ''uosmo'' 1,
         ValidateArb 102 ''uusdc'' ''uosmo'' 1, ValidateArb 101 ''uusdc'' ''uosmo'' 1,
         ValidateArb 101 ''uusdc'' ''uosmo'' 1, ValidateArb 101 ''uusdc'' ''uosmo'' 1,
         ValidateArb 101 ''uusdc'' ''uosmo'' 1, ValidateArb 101 ''uusdc'' ''uosmo'' 1,
         ValidateArb 101 ''uusdc'' ''uosmo'' 1, ValidateArb 101 ''uusdc'' ''uosmo'' 1,
         ValidateArb 101 ''uusdc'' ''uosmo'' 1, ValidateArb 101 ''uusdc'' ''uosmo'' 1,
         ValidateArb 101 ''uusdc'' ''uosmo'' 1, ValidateArb 101 ''uusdc'' ''uosmo'' 1,
         ValidateArb 101 ''uusdc'' ''uosmo'' 1, ValidateArb 101 ''uusdc'' ''uosmo'' 1,
         ExecuteTx 7 \<lparr>msgs = [exMsgHigh], usedPools = [], adjustedGasUsedTotal = 110000\<rparr>,
         Log Info ''Executed immediate fill transaction'',
         Log Info ''passed orderbook asks'',
         ValidateArb 0 ''uosmo'' ''uusdc'' 1,
         Log Error ''failed to fill bids'',
         Log Info ''processed end block in orderbook filler ingest plugin''],
        txCtx := \<lparr>msgs = [], usedPools = [1], adjustedGasUsedTotal = 0\<rparr>\<rparr>, None)"
  by (simp add: ProcessEndBlock_def fetchTicksForModifiedOrderbooks_def processBlockLocked_def
      getUniqueOrderbookDenoms_def mapStore_def processOrderBook_def fillAskAndBid_def blockctx_New_def
      fillBatch_def tryFill_def fillImmediate_def GetMsgs_def GetSDKMsgs_def
      GetAdjustedGasUsedTotal_def UpdateAdjustedGasTotal_def
      computePerfectArbAmountIfExists_def Let_def high_eq maxRecursionAttemptsArbSearch_def
      tryValidate_down tryValidate_zero midpoint_def AddMsg_def txctx_New_def
      exEnv_def emit_def logger_def idleWorld_def exMsgHigh_def exOrderbook_def)

text \<open>
  Claim C3, at a failing tick refresh. Pool 1 is in the updated pools and its tick query
  fails, so \<^verbatim>\<open>fetchTicksForModifiedOrderbooks\<close> returns the error; \<^verbatim>\<open>ProcessEndBlock\<close> does
  not read it, goes on to the balances, the prices and the search, executes a fill, and
  returns nil.
\<close>

theorem tick_refresh_failure_not_fatal:
  "PoolID exOrderbook \<in> {1} \<and>
   fetchTicksForOrderbook exEnv [GetAllCanonicalOrderbookPoolIDs] exOrderbook = Some (Err ''tick query failed'') \<and>
   snd (fetchTicksForModifiedOrderbooks exEnv (emit GetAllCanonicalOrderbookPoolIDs idleWorld) {1} [exOrderbook])
     = Some (Err ''tick query failed'') \<and>
   snd (ProcessEndBlock exEnv idleWorld 7 {1}) = None \<and>
   filter isExecuteTx (trace (fst (ProcessEndBlock exEnv idleWorld 7 {1}))) =
     [ExecuteTx 7 \<lparr>msgs = [exMsgHigh], usedPools = [], adjustedGasUsedTotal = 110000\<rparr>]"
  unfolding one_pool_block_run
  by (simp add: fetchTicksForModifiedOrderbooks_def emit_def logger_def exEnv_def idleWorld_def
      exOrderbook_def)

text \<open>
  The batch fill on a batch of two messages whose simulation fails: the batch attempt and both
  fallback attempts simulate the two messages together.
\<close>

lemma fillBatch_two_messages:
  "fillBatch exEnv exCtx batchWorld =
     (batchWorld\<lparr>trace :=
        [SimulateMsgs [''swap-high'', ''swap-high-2''],
         Log Error ''failed to fill batch of arbs as one tx - falling back to executing each message as separate tx'',
         SimulateMsgs [''swap-high'', ''swap-high-2''],
         Log Error ''failed to fill individual msg tx'',
         SimulateMsgs [''swap-high'', ''swap-high-2''],
         Log Error ''failed to fill individual msg tx'',
         Log Info ''processed end block in orderbook filler ingest plugin'']\<rparr>, None)"
  by (simp add: fillBatch_def tryFill_def Let_def GetMsgs_def GetSDKMsgs_def AddMsg_def txctx_New_def
      emit_def logger_def ex_defs)

text \<open>
  The batch fill returns an error only for a batch of exactly one message: the failures of the
  fallback attempts are logged and not returned.
\<close>

lemma fillBatch_nil_unless_single:
  "length (GetMsgs (txCtx w)) \<noteq> 1 \<Longrightarrow> snd (fillBatch e ctx w) = None"
  by (cases "tryFill e ctx w") (auto simp: fillBatch_def Let_def split: option.splits)

text \<open>The whole run of the block of two order books.\<close>

lemma two_pool_block_run:
  "ProcessEndBlock exEnvTwo idleWorld 7 {} =
     (idleWorld\<lparr>trace :=
        [GetAllCanonicalOrderbookPoolIDs, AllBalances,
         GetPrices [''uatom'', ''uusdc'', ''uosmo''], BlockCtxNew,
         GetFillableOrders 1,
         ValidateArb 100 ''uusdc'' ''uosmo'' 1, ValidateArb 103 ''uusdc'' ''uosmo'' 1,
         ValidateArb 102 ''uusdc'' ''uosmo'' 1, ValidateArb 101 ''uusdc'' ''uosmo'' 1,
         ValidateArb 101 ''uusdc'' ''uosmo'' 1, ValidateArb 101 ''uusdc'' ''uosmo'' 1,
         ValidateArb 101 ''uusdc'' ''uosmo'' 1, ValidateArb 101 ''uusdc'' ''uosmo'' 1,
         ValidateArb 101 ''uusdc'' ''uosmo'' 1, ValidateArb 101 ''uusdc'' ''uosmo'' 1,
         ValidateArb 101 ''uusdc'' ''uosmo'' 1, ValidateArb 101 ''uusdc'' ''uosmo'' 1,
         ValidateArb 101 ''uusdc'' ''uosmo'' 1, ValidateArb 101 ''uusdc'' ''uosmo'' 1,
         ValidateArb 101 ''uusdc'' ''uosmo'' 1, ValidateArb 101 ''uusdc'' ''uosmo'' 1,
         ExecuteTx 7 \<lparr>msgs = [exMsgHigh], usedPools = [], adjustedGasUsedTotal = 110000\<rparr>,
         Log Error ''failed to fill high value route immediately'',
         Log Info ''passed orderbook asks'',
         ValidateArb 0 ''uosmo'' ''uusdc'' 1,
         Log Error ''failed to fill bids'',
         GetFillableOrders 2,
         ValidateArb 100 ''uusdc'' ''uatom'' 2, ValidateArb 103 ''uusdc'' ''uatom'' 2,
         ValidateArb 102 ''uusdc'' ''uatom'' 2, ValidateArb 101 ''uusdc'' ''uatom'' 2,
         ValidateArb 101 ''uusdc'' ''uatom'' 2, ValidateArb 101 ''uusdc'' ''uatom'' 2,
         ValidateArb 101 ''uusdc'' ''uatom'' 2, ValidateArb 101 ''uusdc'' ''uatom'' 2,
         ValidateArb 101 ''uusdc'' ''uatom'' 2, ValidateArb 101 ''uusdc'' ''uatom'' 2,
         ValidateArb 101 ''uusdc'' ''uatom'' 2, ValidateArb 101 ''uusdc'' ''uatom'' 2,
         ValidateArb 101 ''uusdc'' ''uatom'' 2, ValidateArb 101 ''uusdc'' ''uatom'' 2,
         ValidateArb 101 ''uusdc'' ''uatom'' 2, ValidateArb 101 ''uusdc'' ''uatom'' 2,
         ExecuteTx 7 \<lparr>msgs = [exMsgHigh2], usedPools = [], adjustedGasUsedTotal = 110000\<rparr>,
         Log Error ''failed to fill high value route immediately'',
         Log Info ''passed orderbook asks'',
         ValidateArb 0 ''uatom'' ''uusdc'' 2,
         Log Error ''failed to fill bids'',
         SimulateMsgs [''swap-high'', ''swap-high-2''],
         Log Error ''failed to fill batch of arbs as one tx - falling back to executing each message as separate tx'',
         SimulateMsgs [''swap-high'', ''swap-high-2''],
         Log Error ''failed to fill individual msg tx'',
         SimulateMsgs [''swap-high'', ''swap-high-2''],
         Log Error ''failed to fill individual msg tx'',
         Log Info ''processed end block in orderbook filler ingest plugin''],
        txCtx := \<lparr>msgs = [exMsgHigh, exMsgHigh2], usedPools = [], adjustedGasUsedTotal = 200000\<rparr>\<rparr>,
      None)"
  by (simp add: ProcessEndBlock_def fetchTicksForModifiedOrderbooks_def processBlockLocked_def
      getUniqueOrderbookDenoms_def mapStore_def processOrderBook_def fillAskAndBid_def blockctx_New_def
      fillBatch_def tryFill_def fillImmediate_def GetMsgs_def GetSDKMsgs_def
      GetAdjustedGasUsedTotal_def UpdateAdjustedGasTotal_def
      computePerfectArbAmountIfExists_def Let_def high_eq maxRecursionAttemptsArbSearch_def
      tryValidate_down tryValidate_zero midpoint_def AddMsg_def txctx_New_def
      exEnvTwo_def exEnv_def emit_def logger_def idleWorld_def exMsgHigh_def exMsgHigh2_def
      exOrderbook_def exOrderbook2_def)

text \<open>
  Claim C1, at the block of two order books. Both immediate executions fail, so the batch holds
  two messages; its simulation fails, and \<^verbatim>\<open>ProcessEndBlock\<close> falls back. Each of the two
  fallback attempts calls \<^verbatim>\<open>tryFill\<close> on the Block Context, whose Transaction Context is still
  the whole batch: the three simulations of the run are all of both messages, and none is of
  a single message. The fresh context \<^verbatim>\<open>curTxCtx\<close> is built and never filled. The failures are
  logged and the result is nil.
\<close>

theorem fallback_attempts_use_batch_context:
  "snd (ProcessEndBlock exEnvTwo idleWorld 7 {}) = None \<and>
   GetMsgs (txCtx (fst (ProcessEndBlock exEnvTwo idleWorld 7 {}))) = [exMsgHigh, exMsgHigh2] \<and>
   filter isSimulateMsgs (trace (fst (ProcessEndBlock exEnvTwo idleWorld 7 {}))) =
     [SimulateMsgs [''swap-high'', ''swap-high-2''],
      SimulateMsgs [''swap-high'', ''swap-high-2''],
      SimulateMsgs [''swap-high'', ''swap-high-2'']]"
  by (simp add: two_pool_block_run GetMsgs_def)

text \<open>
  The whole run of the block of three order books: pool 1 is filled at once in a transaction
  of its own, pool 2 contributes nothing, and the batch that \<^verbatim>\<open>tryFill\<close> simulates and executes
  holds the low-value message of pool 3 alone.
\<close>

lemma three_pool_block_run:
  "ProcessEndBlock exEnvThree idleWorld 7 {} =
     (idleWorld\<lparr>trace :=
        [GetAllCanonicalOrderbookPoolIDs, AllBalances,
         GetPrices [''uion'', ''uatom'', ''uusdc'', ''uosmo''], BlockCtxNew,
         GetFillableOrders 1,
         ValidateArb 100 ''uusdc'' ''uosmo'' 1, ValidateArb 103 ''uusdc'' ''uosmo'' 1,
         ValidateArb 102 ''uusdc'' ''uosmo'' 1, ValidateArb 101 ''uusdc'' ''uosmo'' 1,
         ValidateArb 101 ''uusdc'' ''uosmo'' 1, ValidateArb 101 ''uusdc'' ''uosmo'' 1,
         ValidateArb 101 ''uusdc'' ''uosmo'' 1, ValidateArb 101 ''uusdc'' ''uosmo'' 1,
         ValidateArb 101 ''uusdc'' ''uosmo'' 1, ValidateArb 101 ''uusdc'' ''uosmo'' 1,
         ValidateArb 101 ''uusdc'' ''uosmo'' 1, ValidateArb 101 ''uusdc'' ''uosmo'' 1,
         ValidateArb 101 ''uusdc'' ''uosmo'' 1, ValidateArb 101 ''uusdc'' ''uosmo'' 1,
         ValidateArb 101 ''uusdc'' ''uosmo'' 1, ValidateArb 101 ''uusdc'' ''uosmo'' 1,
         ExecuteTx 7 \<lparr>msgs = [exMsgHigh], usedPools = [], adjustedGasUsedTotal = 110000\<rparr>,
         Log Info ''Executed immediate fill transaction'',
         Log Info ''passed orderbook asks'',
         ValidateArb 0 ''uosmo'' ''uusdc'' 1,
         Log Error ''failed to fill bids'',
         GetFillableOrders 2,
         ValidateArb 100 ''uusdc'' ''uatom'' 2,
         Log Error ''failed to fill asks'',
         ValidateArb 0 ''uatom'' ''uusdc'' 2,
         Log Error ''failed to fill bids'',
         GetFillableOrders 3,
         ValidateArb 100 ''uusdc'' ''uion'' 3, ValidateArb 103 ''uusdc'' ''uion'' 3,
         ValidateArb 102 ''uusdc'' ''uion'' 3, ValidateArb 101 ''uusdc'' ''uion'' 3,
         ValidateArb 101 ''uusdc'' ''uion'' 3, ValidateArb 101 ''uusdc'' ''uion'' 3,
         ValidateArb 101 ''uusdc'' ''uion'' 3, ValidateArb 101 ''uusdc'' ''uion'' 3,
         ValidateArb 101 ''uusdc'' ''uion'' 3, ValidateArb 101 ''uusdc'' ''uion'' 3,
         ValidateArb 101 ''uusdc'' ''uion'' 3, ValidateArb 101 ''uusdc'' ''uion'' 3,
         ValidateArb 101 ''uusdc'' ''uion'' 3, ValidateArb 101 ''uusdc'' ''uion'' 3,
         ValidateArb 101 ''uusdc'' ''uion'' 3, ValidateArb 101 ''uusdc'' ''uion'' 3,
         Log Info ''passed orderbook asks'',
         ValidateArb 0 ''uion'' ''uusdc'' 3,
         Log Error ''failed to fill bids'',
         SimulateMsgs [''swap-low-3''],
         ExecuteTx 7 \<lparr>msgs = [exMsgLow3], usedPools = [1], adjustedGasUsedTotal = 90000\<rparr>,
         Log Info ''processed end block in orderbook filler ingest plugin''],
        txCtx := \<lparr>msgs = [exMsgLow3], usedPools = [1], adjustedGasUsedTotal = 90000\<rparr>\<rparr>,
      None)"
  by (simp add: ProcessEndBlock_def fetchTicksForModifiedOrderbooks_def processBlockLocked_def
      getUniqueOrderbookDenoms_def mapStore_def processOrderBook_def fillAskAndBid_def blockctx_New_def
      fillBatch_def tryFill_def fillImmediate_def GetMsgs_def GetSDKMsgs_def
      GetAdjustedGasUsedTotal_def UpdateAdjustedGasTotal_def
      computePerfectArbAmountIfExists_def Let_def high_eq maxRecursionAttemptsArbSearch_def
      tryValidate_down tryValidate_zero midpoint_def AddMsg_def txctx_New_def
      exEnvThree_def exEnv_def emit_def logger_def idleWorld_def exMsgHigh_def exMsgLow3_def
      exOrderbook_def exOrderbook2_def exOrderbook3_def)

end
